theory Spec2Isabelle
  imports Main "HOL-Library.Word" "HOL-Library.Sublist"
begin

section \<open>Values a caller can hand to the constructors\<close>

text \<open>
  The constructors are typed \<open>format: CompressionFormat\<close>, but the check
  \<open>isValidFormat(format: unknown)\<close> exists because callers pass anything
  (the tests pass \<open>"bad" as any\<close> and \<open>123 as any\<close>). The module looks at
  an argument in two ways only: \<open>typeof format\<close> and \<open>String(format)\<close>.

  An error is a class and a message. \<open>TypeError m\<close> is a \<open>TypeError\<close> whose
  message is \<open>m\<close>. \<open>HostTypeError w\<close> is a \<open>TypeError\<close> raised by the engine or
  by \<open>node:stream\<close> itself; its message is the host's own wording, and \<open>w\<close> only
  records what was refused. \<open>OtherError c m\<close> is anything else that can be thrown: an
  error of another class \<open>c\<close> (\<open>Error\<close>, \<open>RangeError\<close>, a class of the caller's
  own).
\<close>

datatype exn = TypeError string | HostTypeError string | OtherError string string

text \<open>\<open>e instanceof TypeError\<close>\<close>

fun is_TypeError :: "exn \<Rightarrow> bool" where
  "is_TypeError (TypeError m) = True"
| "is_TypeError (HostTypeError w) = True"
| "is_TypeError (OtherError c m) = False"

text \<open>
  A Number is a double. The integers of magnitude below \<open>2^53\<close> are the ones a double
  holds exactly and prints digit for digit: \<open>SafeInteger neg m\<close> is the one with
  magnitude \<open>m\<close>, negative when \<open>neg\<close> (\<open>SafeInteger True 0\<close> is \<open>-0\<close>). Every
  other Number (a fraction, \<open>NaN\<close>, an infinity, a magnitude from \<open>2^53\<close> on) is
  \<open>OtherNumber r\<close>, carried by the string \<open>r\<close> the engine prints for it:
  \<open>1e21\<close> is \<open>OtherNumber ''1e+21''\<close>.
\<close>

datatype number = SafeInteger bool "53 word" | OtherNumber string

text \<open>
  An object or a function is carried by what \<open>String(obj)\<close> does with it. The
  conversion runs the object's own \<open>toString\<close>: it returns a string (\<open>Inr\<close>), or
  it throws (\<open>Inl\<close>), as it does for \<open>{ toString() { throw new RangeError() } }\<close>
  and for an object that has no \<open>toString\<close> at all. \<open>JSObject (Inr ''gzip'')\<close> is
  an object whose \<open>toString\<close> yields \<open>"gzip"\<close>.
\<close>

datatype jsvalue =
    JSUndefined
  | JSNull
  | JSBoolean bool
  | JSNumber number
  | JSBigInt int
  | JSString string
  | JSSymbol string
  | JSObject "exn + string"
  | JSFunction "exn + string"

fun typeof :: "jsvalue \<Rightarrow> string" where
  "typeof JSUndefined = ''undefined''"
| "typeof JSNull = ''object''"
| "typeof (JSBoolean b) = ''boolean''"
| "typeof (JSNumber n) = ''number''"
| "typeof (JSBigInt n) = ''bigint''"
| "typeof (JSString s) = ''string''"
| "typeof (JSSymbol d) = ''symbol''"
| "typeof (JSObject c) = ''object''"
| "typeof (JSFunction c) = ''function''"

definition digit :: "nat \<Rightarrow> char" where
  "digit d = (if d < 10 then ''0123456789'' ! d else CHR ''?'')"

fun decimal :: "nat \<Rightarrow> string" where
  "decimal n = (if n < 10 then [digit n] else decimal (n div 10) @ [digit (n mod 10)])"

declare decimal.simps [simp del]

text \<open>What a digit string denotes, to say what \<open>decimal\<close> prints.\<close>

definition digit_value :: "char \<Rightarrow> nat" where
  "digit_value c = of_char c - 48"

definition digits_value :: "string \<Rightarrow> nat" where
  "digits_value ds = foldl (\<lambda>a c. 10 * a + digit_value c) 0 ds"

text \<open>A BigInt prints all its digits, whatever its size.\<close>

definition show_int :: "int \<Rightarrow> string" where
  "show_int i = (if i < 0 then CHR ''-'' # decimal (nat (- i)) else decimal (nat i))"

text \<open>\<open>Number.prototype.toString\<close>; \<open>-0\<close> prints as \<open>0\<close>.\<close>

fun Number_toString :: "number \<Rightarrow> string" where
  "Number_toString (SafeInteger neg m) =
     (if neg \<and> m \<noteq> 0 then ''-'' else []) @ decimal (unat m)"
| "Number_toString (OtherNumber r) = r"

text \<open>\<open>String(value)\<close>: the string rendering, or what the conversion throws.\<close>

fun js_String :: "jsvalue \<Rightarrow> exn + string" where
  "js_String JSUndefined = Inr ''undefined''"
| "js_String JSNull = Inr ''null''"
| "js_String (JSBoolean b) = Inr (if b then ''true'' else ''false'')"
| "js_String (JSNumber n) = Inr (Number_toString n)"
| "js_String (JSBigInt n) = Inr (show_int n)"
| "js_String (JSString s) = Inr s"
| "js_String (JSSymbol d) = Inr (''Symbol('' @ d @ '')'')"
| "js_String (JSObject c) = c"
| "js_String (JSFunction c) = c"

section \<open>The two factory tables\<close>

datatype factory =
    createDeflate | createDeflateRaw | createGzip
  | createInflate | createInflateRaw | createGunzip

text \<open>
  Each table is an object literal: its own properties are the three format names, in
  the order written, and its prototype is \<open>Object.prototype\<close>.
\<close>

type_synonym table = "(string \<times> factory) list"

definition COMPRESSION_FORMATS :: table where
  "COMPRESSION_FORMATS =
     [(''deflate'', createDeflate),
      (''deflate-raw'', createDeflateRaw),
      (''gzip'', createGzip)]"

definition DECOMPRESSION_FORMATS :: table where
  "DECOMPRESSION_FORMATS =
     [(''deflate'', createInflate),
      (''deflate-raw'', createInflateRaw),
      (''gzip'', createGunzip)]"

text \<open>The property names every object literal inherits from \<open>Object.prototype\<close>.\<close>

definition Object_prototype :: "string list" where
  "Object_prototype =
     [''constructor'', ''__defineGetter__'', ''__defineSetter__'', ''hasOwnProperty'',
      ''__lookupGetter__'', ''__lookupSetter__'', ''isPrototypeOf'',
      ''propertyIsEnumerable'', ''toString'', ''valueOf'', ''__proto__'',
      ''toLocaleString'']"

text \<open>
  \<open>key in obj\<close> is true for an own property and for an inherited one: the operator
  walks the prototype chain.
\<close>

definition has_property :: "table \<Rightarrow> string \<Rightarrow> bool" where
  "has_property obj k = (k \<in> set (map fst obj) \<or> k \<in> set Object_prototype)"

text \<open>
  The left operand of \<open>in\<close> is only evaluated here after \<open>typeof format === "string"\<close>
  held (\<open>&&\<close> stops at a false left side), so it is a string whenever it is used.
\<close>

fun in_op :: "jsvalue \<Rightarrow> table \<Rightarrow> bool" where
  "in_op (JSString k) obj = has_property obj k"
| "in_op v obj = False"

definition isValidFormat :: "jsvalue \<Rightarrow> bool" where
  "isValidFormat format = (typeof format = ''string'' \<and> in_op format COMPRESSION_FORMATS)"

text \<open>
  \<open>obj[key]\<close> reads the own property, else the one on \<open>Object.prototype\<close>, else
  \<open>undefined\<close> (\<open>None\<close>).
\<close>

datatype member = Factory factory | Inherited string

definition get_property :: "table \<Rightarrow> string \<Rightarrow> member option" where
  "get_property obj k =
     (case map_of obj k of
        Some f \<Rightarrow> Some (Factory f)
      | None \<Rightarrow> if k \<in> set Object_prototype then Some (Inherited k) else None)"

fun get_member :: "table \<Rightarrow> jsvalue \<Rightarrow> member option" where
  "get_member obj (JSString k) = get_property obj k"
| "get_member obj v = None"

section \<open>Native objects and the two adapters\<close>

text \<open>
  The store holds the native objects allocated so far; an object's identity is its
  position. \<open>Transform f\<close> is a zlib transform made by factory \<open>f\<close>;
  \<open>ReadableStream t\<close> and \<open>WritableStream t\<close> are the web streams that
  \<open>Readable.toWeb\<close> and \<open>Writable.toWeb\<close> build over the transform at \<open>t\<close>.
\<close>

datatype native = Transform factory | ReadableStream nat | WritableStream nat

type_synonym store = "native list"

definition alloc :: "native \<Rightarrow> store \<Rightarrow> nat \<times> store" where
  "alloc x st = (length st, st @ [x])"

definition lookup :: "store \<Rightarrow> nat \<Rightarrow> native option" where
  "lookup st i = (if i < length st then Some (st ! i) else None)"

text \<open>
  \<open>TABLE[format]()\<close>. A factory allocates one transform. A member inherited from
  \<open>Object.prototype\<close> is no codec factory: calling it gives no transform
  (\<open>toString\<close> gives a string, \<open>__proto__\<close> is not callable, and so on), and the
  host refuses with a \<open>TypeError\<close> of its own before any stream exists.
\<close>

fun instantiate :: "member option \<Rightarrow> store \<Rightarrow> (exn + nat) \<times> store" where
  "instantiate (Some (Factory f)) st = (let (t, st1) = alloc (Transform f) st in (Inr t, st1))"
| "instantiate (Some (Inherited n)) st = (Inl (HostTypeError n), st)"
| "instantiate None st = (Inl (HostTypeError ''undefined is not a function''), st)"

definition Readable_toWeb :: "nat \<Rightarrow> store \<Rightarrow> nat \<times> store" where
  "Readable_toWeb transform st = alloc (ReadableStream transform) st"

definition Writable_toWeb :: "nat \<Rightarrow> store \<Rightarrow> nat \<times> store" where
  "Writable_toWeb transform st = alloc (WritableStream transform) st"

record adapter =
  readable :: nat
  writable :: nat

definition invalid_format_message :: "string \<Rightarrow> string" where
  "invalid_format_message s =
     ''Invalid compression format '' @ [CHR 0x27] @ s @ [CHR 0x27] @ ''. '' @
     ''Use: deflate, deflate-raw, or gzip''"

text \<open>
  In \<open>throw new TypeError(`... ${String(format)} ...`)\<close> the message is built first:
  when \<open>String(format)\<close> throws, that error leaves the constructor and the
  \<open>TypeError\<close> is never made.
\<close>

definition CompressionStreamPolyfill :: "store \<Rightarrow> jsvalue \<Rightarrow> (exn + adapter) \<times> store" where
  "CompressionStreamPolyfill st format =
     (if \<not> isValidFormat format then
        (case js_String format of
           Inl e \<Rightarrow> (Inl e, st)
         | Inr s \<Rightarrow> (Inl (TypeError (invalid_format_message s)), st))
      else
        (case instantiate (get_member COMPRESSION_FORMATS format) st of
           (Inl e, st1) \<Rightarrow> (Inl e, st1)
         | (Inr transform, st1) \<Rightarrow>
             (let (r, st2) = Readable_toWeb transform st1;
                  (w, st3) = Writable_toWeb transform st2
              in (Inr \<lparr>readable = r, writable = w\<rparr>, st3))))"

definition DecompressionStreamPolyfill :: "store \<Rightarrow> jsvalue \<Rightarrow> (exn + adapter) \<times> store" where
  "DecompressionStreamPolyfill st format =
     (if \<not> isValidFormat format then
        (case js_String format of
           Inl e \<Rightarrow> (Inl e, st)
         | Inr s \<Rightarrow> (Inl (TypeError (invalid_format_message s)), st))
      else
        (case instantiate (get_member DECOMPRESSION_FORMATS format) st of
           (Inl e, st1) \<Rightarrow> (Inl e, st1)
         | (Inr transform, st1) \<Rightarrow>
             (let (r, st2) = Readable_toWeb transform st1;
                  (w, st3) = Writable_toWeb transform st2
              in (Inr \<lparr>readable = r, writable = w\<rparr>, st3))))"

section \<open>Data through an adapter\<close>

text \<open>
  The codec is \<open>node:zlib\<close>, outside this module: it is a parameter here. \<open>zlib f B\<close>
  is everything a transform made by factory \<open>f\<close> emits once the bytes \<open>B\<close> have
  been written to it and the input closed, or \<open>None\<close> when the transform errors
  (corrupt input).
\<close>

type_synonym bytes = "8 word list"

type_synonym codec = "factory \<Rightarrow> bytes \<Rightarrow> bytes option"

text \<open>
  \<open>input.pipeThrough(adapter)\<close>, then reading the result to its end: the bytes go
  into the transform under \<open>adapter.writable\<close>, and what is read comes out of the
  transform under \<open>adapter.readable\<close>. If the two were different transforms the reader
  would wait on a transform that is never fed; that is \<open>None\<close> as well.
\<close>

definition pipeThrough :: "codec \<Rightarrow> store \<Rightarrow> bytes \<Rightarrow> adapter \<Rightarrow> bytes option" where
  "pipeThrough zlib st input a =
     (case (lookup st (writable a), lookup st (readable a)) of
        (Some (WritableStream t), Some (ReadableStream t')) \<Rightarrow>
          (if t = t' then
             (case lookup st t of Some (Transform f) \<Rightarrow> zlib f input | _ \<Rightarrow> None)
           else None)
      | _ \<Rightarrow> None)"

text \<open>
  The helpers \<open>compress\<close> and \<open>decompress\<close> of the test file, on bytes: build the
  adapter for the format, pipe the input through it, collect the chunks read.
\<close>

definition compress :: "codec \<Rightarrow> store \<Rightarrow> bytes \<Rightarrow> jsvalue \<Rightarrow> bytes option \<times> store" where
  "compress zlib st text format =
     (case CompressionStreamPolyfill st format of
        (Inl e, st1) \<Rightarrow> (None, st1)
      | (Inr cs, st1) \<Rightarrow> (pipeThrough zlib st1 text cs, st1))"

definition decompress :: "codec \<Rightarrow> store \<Rightarrow> bytes \<Rightarrow> jsvalue \<Rightarrow> bytes option \<times> store" where
  "decompress zlib st data format =
     (case DecompressionStreamPolyfill st format of
        (Inl e, st1) \<Rightarrow> (None, st1)
      | (Inr ds, st1) \<Rightarrow> (pipeThrough zlib st1 data ds, st1))"

text \<open>
  What is asked of zlib: each inflating transform gives back what the matching
  deflating transform was fed.
\<close>

definition inverts :: "codec \<Rightarrow> factory \<Rightarrow> factory \<Rightarrow> bool" where
  "inverts zlib inflater deflater =
     (\<forall>B. \<exists>C. zlib deflater B = Some C \<and> zlib inflater C = Some B)"

definition zlib_round_trips :: "codec \<Rightarrow> bool" where
  "zlib_round_trips zlib =
     (inverts zlib createInflate createDeflate \<and>
      inverts zlib createInflateRaw createDeflateRaw \<and>
      inverts zlib createGunzip createGzip)"

text \<open>
  A small codec that meets this contract, to run the adapters on: it stores the bytes
  as they are, behind a format mark (two bytes for deflate, none for deflate-raw, three
  for gzip), and refuses input that lacks the mark.
\<close>

fun stored_codec :: codec where
  "stored_codec createDeflate B = Some (0x78 # 0x9C # B)"
| "stored_codec createInflate C =
     (case C of a # b # B \<Rightarrow> if a = 0x78 \<and> b = 0x9C then Some B else None | _ \<Rightarrow> None)"
| "stored_codec createDeflateRaw B = Some B"
| "stored_codec createInflateRaw C = Some C"
| "stored_codec createGzip B = Some (0x1F # 0x8B # 0x08 # B)"
| "stored_codec createGunzip C =
     (case C of a # b # c # B \<Rightarrow>
        if a = 0x1F \<and> b = 0x8B \<and> c = 0x08 then Some B else None | _ \<Rightarrow> None)"

section \<open>The object a constructor returns\<close>

text \<open>
  The value of a property of the new object: \<open>null\<close>, or a reference into the store.
\<close>

datatype jsref = Null | Ref nat

record field =
  field_value :: jsref
  field_writable :: bool
  field_enumerable :: bool
  field_configurable :: bool

type_synonym object = "string \<rightharpoonup> field"

text \<open>
  \<open>obj[name] = x\<close> in strict code (a module, a class body), on an ordinary object
  with no setter for the name: a name the object lacks becomes a data property with all
  three attributes true; a writable property takes the new value; a read-only one makes
  the engine throw a \<open>TypeError\<close>.
\<close>

definition js_set :: "object \<Rightarrow> string \<Rightarrow> jsref \<Rightarrow> exn + object" where
  "js_set obj name x =
     (case obj name of
        None \<Rightarrow>
          Inr (obj(name \<mapsto> \<lparr>field_value = x, field_writable = True,
                             field_enumerable = True, field_configurable = True\<rparr>))
      | Some p \<Rightarrow>
          if field_writable p then Inr (obj(name \<mapsto> p\<lparr>field_value := x\<rparr>))
          else Inl (HostTypeError ''assignment to a read-only property''))"

text \<open>
  \<open>this\<close> once the constructor has run \<open>this.readable = ...\<close> and
  \<open>this.writable = ...\<close>. The modifiers \<open>public readonly\<close> are TypeScript's: they
  are checked when the module is compiled and leave nothing in the code that runs.
\<close>

definition new_instance :: "adapter \<Rightarrow> object" where
  "new_instance a =
     [''readable'' \<mapsto> \<lparr>field_value = Ref (readable a), field_writable = True,
                          field_enumerable = True, field_configurable = True\<rparr>,
      ''writable'' \<mapsto> \<lparr>field_value = Ref (writable a), field_writable = True,
                          field_enumerable = True, field_configurable = True\<rparr>]"


section \<open>Registration on the global object\<close>

text \<open>
  A global is absent, or holds a defined value under a property descriptor. The value
  is one of the module's two classes, or something the host put there.
\<close>

datatype global_value =
    CompressionStreamPolyfill_class
  | DecompressionStreamPolyfill_class
  | HostValue string

record descriptor =
  desc_value :: global_value
  desc_writable :: bool
  desc_enumerable :: bool
  desc_configurable :: bool

type_synonym globals = "string \<rightharpoonup> descriptor"

text \<open>\<open>typeof globalThis[name] === "undefined"\<close>\<close>

definition typeof_undefined :: "globals \<Rightarrow> string \<Rightarrow> bool" where
  "typeof_undefined g name = (g name = None)"

definition defineProperty :: "globals \<Rightarrow> string \<Rightarrow> descriptor \<Rightarrow> globals" where
  "defineProperty obj name d = obj(name \<mapsto> d)"

text \<open>The two top-level statements that run when the module is loaded, in order.\<close>

definition module_load :: "globals \<Rightarrow> globals" where
  "module_load g =
     (let g1 =
        (if typeof_undefined g ''CompressionStream'' then
           defineProperty g ''CompressionStream''
             \<lparr>desc_value = CompressionStreamPolyfill_class,
              desc_writable = True,
              desc_enumerable = False,
              desc_configurable = True\<rparr>
         else g);
          g2 =
        (if typeof_undefined g1 ''DecompressionStream'' then
           defineProperty g1 ''DecompressionStream''
             \<lparr>desc_value = DecompressionStreamPolyfill_class,
              desc_writable = True,
              desc_enumerable = False,
              desc_configurable = True\<rparr>
         else g1)
      in g2)"

text \<open>A host that ships a native \<open>CompressionStream\<close> and no \<open>DecompressionStream\<close>.\<close>

definition native_only_compression :: globals where
  "native_only_compression =
     [''CompressionStream'' \<mapsto>
        \<lparr>desc_value = HostValue ''native CompressionStream'', desc_writable = True,
         desc_enumerable = False, desc_configurable = True\<rparr>]"

section \<open>How the constructors behave, case by case\<close>

lemma own_keys:
  "map fst COMPRESSION_FORMATS = [''deflate'', ''deflate-raw'', ''gzip'']"
  "map fst DECOMPRESSION_FORMATS = [''deflate'', ''deflate-raw'', ''gzip'']"
  by (simp_all add: COMPRESSION_FORMATS_def DECOMPRESSION_FORMATS_def)

text \<open>What the validator accepts: the three format names, and every inherited name.\<close>

lemma isValidFormat_iff:
  "isValidFormat v \<longleftrightarrow>
     (\<exists>k. v = JSString k \<and>
        (k \<in> set [''deflate'', ''deflate-raw'', ''gzip''] \<or> k \<in> set Object_prototype))"
  by (cases v) (simp_all add: isValidFormat_def has_property_def own_keys)

lemma own_key_valid:
  "k \<in> set [''deflate'', ''deflate-raw'', ''gzip''] \<Longrightarrow> isValidFormat (JSString k)"
  by (auto simp: isValidFormat_iff)

lemma rejected_compression:
  "\<not> isValidFormat v \<Longrightarrow>
     CompressionStreamPolyfill st v =
       (case js_String v of
          Inl e \<Rightarrow> (Inl e, st)
        | Inr s \<Rightarrow> (Inl (TypeError (invalid_format_message s)), st))"
  by (simp add: CompressionStreamPolyfill_def)

lemma rejected_decompression:
  "\<not> isValidFormat v \<Longrightarrow>
     DecompressionStreamPolyfill st v =
       (case js_String v of
          Inl e \<Rightarrow> (Inl e, st)
        | Inr s \<Rightarrow> (Inl (TypeError (invalid_format_message s)), st))"
  by (simp add: DecompressionStreamPolyfill_def)

lemma non_string_invalid: "typeof v \<noteq> ''string'' \<Longrightarrow> \<not> isValidFormat v"
  by (simp add: isValidFormat_def)

lemma table_lookup:
  "k \<in> set [''deflate'', ''deflate-raw'', ''gzip''] \<Longrightarrow>
     (\<exists>f. map_of COMPRESSION_FORMATS k = Some f) \<and>
     (\<exists>f. map_of DECOMPRESSION_FORMATS k = Some f)"
  by (auto simp: COMPRESSION_FORMATS_def DECOMPRESSION_FORMATS_def)

lemma construct_compression:
  assumes "map_of COMPRESSION_FORMATS k = Some f"
  shows "CompressionStreamPolyfill st (JSString k) =
     (Inr \<lparr>readable = Suc (length st), writable = Suc (Suc (length st))\<rparr>,
      st @ [Transform f, ReadableStream (length st), WritableStream (length st)])"
proof -
  from assms have "k \<in> set (map fst COMPRESSION_FORMATS)"
    by (metis domI dom_map_of_conv_image_fst set_map)
  then have "isValidFormat (JSString k)"
    by (simp add: isValidFormat_def has_property_def)
  with assms show ?thesis
    by (simp add: CompressionStreamPolyfill_def get_property_def alloc_def
        Readable_toWeb_def Writable_toWeb_def)
qed

lemma construct_decompression:
  assumes "map_of DECOMPRESSION_FORMATS k = Some f"
  shows "DecompressionStreamPolyfill st (JSString k) =
     (Inr \<lparr>readable = Suc (length st), writable = Suc (Suc (length st))\<rparr>,
      st @ [Transform f, ReadableStream (length st), WritableStream (length st)])"
proof -
  from assms have "k \<in> set (map fst DECOMPRESSION_FORMATS)"
    by (metis domI dom_map_of_conv_image_fst set_map)
  then have "isValidFormat (JSString k)"
    by (simp add: isValidFormat_def has_property_def own_keys)
  with assms show ?thesis
    by (simp add: DecompressionStreamPolyfill_def get_property_def alloc_def
        Readable_toWeb_def Writable_toWeb_def)
qed

lemma inherited_compression:
  assumes "k \<notin> set [''deflate'', ''deflate-raw'', ''gzip'']" and "k \<in> set Object_prototype"
  shows "CompressionStreamPolyfill st (JSString k) = (Inl (HostTypeError k), st)"
proof -
  from assms(1) have "map_of COMPRESSION_FORMATS k = None"
    by (simp add: COMPRESSION_FORMATS_def)
  moreover from assms(2) have "isValidFormat (JSString k)"
    by (simp add: isValidFormat_iff)
  ultimately show ?thesis using assms(2)
    by (simp add: CompressionStreamPolyfill_def get_property_def)
qed

lemma inherited_decompression:
  assumes "k \<notin> set [''deflate'', ''deflate-raw'', ''gzip'']" and "k \<in> set Object_prototype"
  shows "DecompressionStreamPolyfill st (JSString k) = (Inl (HostTypeError k), st)"
proof -
  from assms(1) have "map_of DECOMPRESSION_FORMATS k = None"
    by (simp add: DECOMPRESSION_FORMATS_def)
  moreover from assms(2) have "isValidFormat (JSString k)"
    by (simp add: isValidFormat_iff)
  ultimately show ?thesis using assms(2)
    by (simp add: DecompressionStreamPolyfill_def get_property_def)
qed

subsection \<open>What \<open>decimal\<close> prints\<close>

lemma digit_cases:
  "d < 10 \<Longrightarrow>
     d = 0 \<or> d = 1 \<or> d = 2 \<or> d = 3 \<or> d = 4 \<or> d = 5 \<or> d = 6 \<or> d = 7 \<or> d = 8 \<or> d = (9::nat)"
  by arith

lemma digit_value_digit: "d < 10 \<Longrightarrow> digit_value (digit d) = d"
  using digit_cases [of d] by (auto simp: digit_def digit_value_def)

lemma digit_in: "d < 10 \<Longrightarrow> digit d \<in> set ''0123456789''"
  using digit_cases [of d] by (auto simp: digit_def)

lemma digit_zero: "d < 10 \<Longrightarrow> digit d = CHR ''0'' \<longleftrightarrow> d = 0"
  using digit_cases [of d] by (auto simp: digit_def)

lemma digits_value_snoc: "digits_value (ds @ [c]) = 10 * digits_value ds + digit_value c"
  by (simp add: digits_value_def)

text \<open>The digits printed denote the number,\<close>

lemma digits_value_decimal: "digits_value (decimal n) = n"
proof (induction n rule: decimal.induct)
  case (1 n)
  show ?case
  proof (cases "n < 10")
    case True
    then show ?thesis
      by (simp add: decimal.simps [of n] digits_value_def digit_value_digit)
  next
    case False
    with 1 have "digits_value (decimal (n div 10)) = n div 10" by simp
    with False show ?thesis
      by (simp add: decimal.simps [of n] digits_value_snoc digit_value_digit)
  qed
qed

text \<open>they are digits,\<close>

lemma decimal_digits: "set (decimal n) \<subseteq> set ''0123456789''"
proof (induction n rule: decimal.induct)
  case (1 n)
  show ?case
  proof (cases "n < 10")
    case True
    then show ?thesis
      using digit_in [of n] by (simp add: decimal.simps [of n])
  next
    case False
    with 1 have "set (decimal (n div 10)) \<subseteq> set ''0123456789''" by simp
    with False show ?thesis
      using digit_in [of "n mod 10"] by (simp add: decimal.simps [of n])
  qed
qed

lemma decimal_nonempty: "decimal n \<noteq> []"
  by (subst decimal.simps) simp

text \<open>and none is a leading zero.\<close>

lemma decimal_no_leading_zero: "0 < n \<Longrightarrow> hd (decimal n) \<noteq> CHR ''0''"
proof (induction n rule: decimal.induct)
  case (1 n)
  show ?case
  proof (cases "n < 10")
    case True
    with 1(2) show ?thesis
      by (simp add: decimal.simps [of n] digit_zero)
  next
    case False
    then have "0 < n div 10" by simp
    with 1(1) False have "hd (decimal (n div 10)) \<noteq> CHR ''0''" by simp
    with False show ?thesis
      by (simp add: decimal.simps [of n] decimal_nonempty)
  qed
qed

subsection \<open>The message\<close>

lemma message_text:
  "invalid_format_message s =
     ''Invalid compression format '' @ [CHR 0x27] @ s @ [CHR 0x27] @
     ''. Use: deflate, deflate-raw, or gzip''"
  by (simp add: invalid_format_message_def)

lemma message_mentions:
  "sublist s (invalid_format_message s)"
  "sublist ''deflate'' (invalid_format_message s)"
  "sublist ''deflate-raw'' (invalid_format_message s)"
  "sublist ''gzip'' (invalid_format_message s)"
  by (simp_all add: invalid_format_message_def sublist_append sublist_Cons_right)

subsection \<open>The new object\<close>

text \<open>\<open>new_instance\<close> is what the two assignments of the constructor leave on a fresh \<open>this\<close>.\<close>

lemma new_instance_by_assignment:
  "\<exists>this1. js_set Map.empty ''readable'' (Ref (readable a)) = Inr this1 \<and>
           js_set this1 ''writable'' (Ref (writable a)) = Inr (new_instance a)"
  by (simp add: js_set_def new_instance_def)




subsection \<open>Piping through a fresh adapter\<close>

lemma pipeThrough_fresh:
  "pipeThrough zlib (st @ [Transform f, ReadableStream (length st), WritableStream (length st)])
     input \<lparr>readable = Suc (length st), writable = Suc (Suc (length st))\<rparr> = zlib f input"
  by (simp add: pipeThrough_def lookup_def nth_append)

lemma compress_own:
  "map_of COMPRESSION_FORMATS k = Some f \<Longrightarrow>
     compress zlib st B (JSString k) =
       (zlib f B, st @ [Transform f, ReadableStream (length st), WritableStream (length st)])"
  by (simp add: compress_def construct_compression pipeThrough_fresh)

lemma decompress_own:
  "map_of DECOMPRESSION_FORMATS k = Some f \<Longrightarrow>
     decompress zlib st B (JSString k) =
       (zlib f B, st @ [Transform f, ReadableStream (length st), WritableStream (length st)])"
  by (simp add: decompress_def construct_decompression pipeThrough_fresh)

lemma stored_codec_round_trips: "zlib_round_trips stored_codec"
  by (simp add: zlib_round_trips_def inverts_def)

subsection \<open>Concrete runs\<close>

lemma gzip_from_empty:
  "CompressionStreamPolyfill [] (JSString ''gzip'') =
     (Inr \<lparr>readable = 1, writable = 2\<rparr>,
      [Transform createGzip, ReadableStream 0, WritableStream 0])"
  by (simp add: construct_compression COMPRESSION_FORMATS_def)

lemma gunzip_from_empty:
  "DecompressionStreamPolyfill [] (JSString ''gzip'') =
     (Inr \<lparr>readable = 1, writable = 2\<rparr>,
      [Transform createGunzip, ReadableStream 0, WritableStream 0])"
  by (simp add: construct_decompression DECOMPRESSION_FORMATS_def)

lemma prints_123: "Number_toString (SafeInteger False 123) = ''123''"
  by (simp add: decimal.simps digit_def)

lemma prints_minus_40: "Number_toString (SafeInteger True 40) = ''-40''"
  by (simp add: decimal.simps digit_def)

lemma GZIP_rejected: "\<not> isValidFormat (JSString ''GZIP'')"
  by (simp add: isValidFormat_iff Object_prototype_def)

lemma bad_rejected: "\<not> isValidFormat (JSString ''bad'')"
  by (simp add: isValidFormat_iff Object_prototype_def)

section \<open>The properties\<close>

text \<open>
  C1. Every value other than the exact strings \<open>"deflate"\<close>, \<open>"deflate-raw"\<close> and
  \<open>"gzip"\<close> should make both constructors fail at once with the invalid-format error,
  the validation being a membership test against exactly those three names. The code
  tests \<open>format in COMPRESSION_FORMATS\<close>, which is also true of the names the table
  inherits. Run on the string \<open>"toString"\<close>: the validator answers true, neither
  constructor raises the invalid-format error, and each goes on to call the inherited
  member in place of a codec factory.
\<close>

theorem inherited_name_passes_validation:
  "isValidFormat (JSString ''toString'') \<and>
   get_member COMPRESSION_FORMATS (JSString ''toString'') = Some (Inherited ''toString'') \<and>
   CompressionStreamPolyfill [] (JSString ''toString'') =
     (Inl (HostTypeError ''toString''), []) \<and>
   DecompressionStreamPolyfill [] (JSString ''toString'') =
     (Inl (HostTypeError ''toString''), []) \<and>
   fst (CompressionStreamPolyfill [] (JSString ''toString'')) \<noteq>
     Inl (TypeError (invalid_format_message ''toString'')) \<and>
   fst (DecompressionStreamPolyfill [] (JSString ''toString'')) \<noteq>
     Inl (TypeError (invalid_format_message ''toString''))"
proof -
  have k: "''toString'' \<notin> set [''deflate'', ''deflate-raw'', ''gzip'']"
    and p: "''toString'' \<in> set Object_prototype"
    by (simp_all add: Object_prototype_def)
  have "get_member COMPRESSION_FORMATS (JSString ''toString'') = Some (Inherited ''toString'')"
    by (simp add: get_property_def COMPRESSION_FORMATS_def Object_prototype_def)
  then show ?thesis
    using p by (simp add: isValidFormat_iff inherited_compression [OF k p]
        inherited_decompression [OF k p])
qed

text \<open>
  C2. Round trip: for each of the three formats and every byte sequence \<open>B\<close>, the empty
  one included, compressing \<open>B\<close> through the compression adapter and feeding the result
  through the decompression adapter of the same format gives back exactly \<open>B\<close>. The
  codec is zlib's; what is asked of it is that each inflater undoes its deflater. The
  module's share is that the two tables pair them format by format and that both handles
  of an adapter sit on the one transform it created.
\<close>

theorem round_trip:
  assumes "zlib_round_trips zlib" and "k \<in> set [''gzip'', ''deflate'', ''deflate-raw'']"
  shows "\<exists>C st1. compress zlib st B (JSString k) = (Some C, st1) \<and>
           (\<forall>st2. fst (decompress zlib st2 C (JSString k)) = Some B)"
proof -
  have paired: ?thesis
    if c: "map_of COMPRESSION_FORMATS k = Some deflater"
      and d: "map_of DECOMPRESSION_FORMATS k = Some inflater"
      and inv: "inverts zlib inflater deflater"
    for deflater inflater
  proof -
    from inv obtain C where "zlib deflater B = Some C" and "zlib inflater C = Some B"
      unfolding inverts_def by blast
    then show ?thesis by (simp add: compress_own [OF c] decompress_own [OF d])
  qed
  from assms(2) consider "k = ''gzip''" | "k = ''deflate''" | "k = ''deflate-raw''"
    by auto
  then show ?thesis
  proof cases
    case 1
    show ?thesis
    proof (rule paired)
      show "map_of COMPRESSION_FORMATS k = Some createGzip"
        by (simp add: 1 COMPRESSION_FORMATS_def)
      show "map_of DECOMPRESSION_FORMATS k = Some createGunzip"
        by (simp add: 1 DECOMPRESSION_FORMATS_def)
      show "inverts zlib createGunzip createGzip"
        using assms(1) by (simp add: zlib_round_trips_def)
    qed
  next
    case 2
    show ?thesis
    proof (rule paired)
      show "map_of COMPRESSION_FORMATS k = Some createDeflate"
        by (simp add: 2 COMPRESSION_FORMATS_def)
      show "map_of DECOMPRESSION_FORMATS k = Some createInflate"
        by (simp add: 2 DECOMPRESSION_FORMATS_def)
      show "inverts zlib createInflate createDeflate"
        using assms(1) by (simp add: zlib_round_trips_def)
    qed
  next
    case 3
    show ?thesis
    proof (rule paired)
      show "map_of COMPRESSION_FORMATS k = Some createDeflateRaw"
        by (simp add: 3 COMPRESSION_FORMATS_def)
      show "map_of DECOMPRESSION_FORMATS k = Some createInflateRaw"
        by (simp add: 3 DECOMPRESSION_FORMATS_def)
      show "inverts zlib createInflateRaw createDeflateRaw"
        using assms(1) by (simp add: zlib_round_trips_def)
    qed
  qed
qed

theorem round_trip_witness:
  "zlib_round_trips stored_codec \<and> ''gzip'' \<in> set [''gzip'', ''deflate'', ''deflate-raw''] \<and>
   compress stored_codec [] [72, 105] (JSString ''gzip'') =
     (Some [0x1F, 0x8B, 0x08, 72, 105],
      [Transform createGzip, ReadableStream 0, WritableStream 0]) \<and>
   fst (decompress stored_codec [Transform createGzip, ReadableStream 0, WritableStream 0]
          [0x1F, 0x8B, 0x08, 72, 105] (JSString ''gzip'')) = Some [72, 105] \<and>
   fst (compress stored_codec [] [] (JSString ''gzip'')) = Some [0x1F, 0x8B, 0x08] \<and>
   fst (decompress stored_codec [] [0x1F, 0x8B, 0x08] (JSString ''gzip'')) = Some []"
proof -
  have h: "''gzip'' \<in> set [''gzip'', ''deflate'', ''deflate-raw'']" by simp
  have c: "compress stored_codec [] B (JSString ''gzip'') =
      (Some (0x1F # 0x8B # 0x08 # B), [Transform createGzip, ReadableStream 0, WritableStream 0])"
    for B
    by (simp add: compress_own [of "''gzip''" createGzip] COMPRESSION_FORMATS_def)
  from round_trip [OF stored_codec_round_trips h, of "[]" "[72, 105]"]
  have "\<forall>st2. fst (decompress stored_codec st2 [0x1F, 0x8B, 0x08, 72, 105] (JSString ''gzip'')) =
          Some [72, 105]"
    by (simp add: c)
  moreover from round_trip [OF stored_codec_round_trips h, of "[]" "[]"]
  have "\<forall>st2. fst (decompress stored_codec st2 [0x1F, 0x8B, 0x08] (JSString ''gzip'')) = Some []"
    by (simp add: c)
  ultimately show ?thesis
    using stored_codec_round_trips by (simp add: c)
qed

text \<open>
  C3. A rejected format value makes each constructor throw before anything native
  exists: no codec factory has been called and no readable or writable handle created,
  so the store is the one the call started from.
\<close>

theorem rejection_allocates_nothing:
  assumes "\<not> isValidFormat v"
  shows "(\<exists>e. CompressionStreamPolyfill st v = (Inl e, st)) \<and>
         (\<exists>e. DecompressionStreamPolyfill st v = (Inl e, st))"
  using assms by (simp add: rejected_compression rejected_decompression split: sum.split)

theorem rejection_allocates_nothing_witness:
  "\<not> isValidFormat (JSString ''bad'') \<and>
   (\<exists>e. CompressionStreamPolyfill [Transform createGzip] (JSString ''bad'') =
      (Inl e, [Transform createGzip])) \<and>
   (\<exists>e. DecompressionStreamPolyfill [Transform createGzip] (JSString ''bad'') =
      (Inl e, [Transform createGzip]))"
  using bad_rejected rejection_allocates_nothing [OF bad_rejected, of "[Transform createGzip]"]
  by simp




text \<open>
  C5. The two constructors share one validation contract: for every input, the
  compression constructor throws the invalid-format error exactly when the
  decompression constructor does, and one accepts a value exactly when the other does.
\<close>

theorem same_validation_contract:
  "(fst (CompressionStreamPolyfill st v) = Inl (TypeError (invalid_format_message s)) \<longleftrightarrow>
    fst (DecompressionStreamPolyfill st' v) = Inl (TypeError (invalid_format_message s))) \<and>
   ((\<exists>a. fst (CompressionStreamPolyfill st v) = Inr a) \<longleftrightarrow>
    (\<exists>a. fst (DecompressionStreamPolyfill st' v) = Inr a))"
proof (cases "isValidFormat v")
  case False
  then show ?thesis
    by (simp add: rejected_compression rejected_decompression split: sum.split)
next
  case True
  then obtain k where v: "v = JSString k"
    and k: "k \<in> set [''deflate'', ''deflate-raw'', ''gzip''] \<or> k \<in> set Object_prototype"
    by (auto simp: isValidFormat_iff)
  show ?thesis
  proof (cases "k \<in> set [''deflate'', ''deflate-raw'', ''gzip'']")
    case True
    then obtain f g where "map_of COMPRESSION_FORMATS k = Some f"
      and "map_of DECOMPRESSION_FORMATS k = Some g"
      using table_lookup by blast
    then show ?thesis
      by (simp add: v construct_compression construct_decompression)
  next
    case False
    with k have p: "k \<in> set Object_prototype" by simp
    show ?thesis
      by (simp add: v inherited_compression [OF False p] inherited_decompression [OF False p])
  qed
qed

theorem same_validation_contract_witness:
  "fst (CompressionStreamPolyfill [] (JSString ''bad'')) =
     Inl (TypeError (invalid_format_message ''bad'')) \<and>
   fst (DecompressionStreamPolyfill [Transform createGzip] (JSString ''bad'')) =
     Inl (TypeError (invalid_format_message ''bad'')) \<and>
   (\<exists>a. fst (DecompressionStreamPolyfill [Transform createGzip] (JSString ''gzip'')) = Inr a)"
proof -
  have "fst (CompressionStreamPolyfill [] (JSString ''bad'')) =
      Inl (TypeError (invalid_format_message ''bad''))"
    using bad_rejected by (simp add: rejected_compression)
  moreover have "\<exists>a. fst (CompressionStreamPolyfill [] (JSString ''gzip'')) = Inr a"
    by (simp add: gzip_from_empty)
  ultimately show ?thesis
    using same_validation_contract [of "[]" "JSString ''bad''" "''bad''" "[Transform createGzip]"]
      same_validation_contract [of "[]" "JSString ''gzip''" "''gzip''" "[Transform createGzip]"]
    by blast
qed

text \<open>
  C6. Loading the module, for each of the names \<open>CompressionStream\<close> and
  \<open>DecompressionStream\<close>: when the host has no such global, the module's class is
  installed under that name as a writable, non-enumerable, configurable property; when
  the host already has it, that name is left exactly as it was. No other global is
  touched.
\<close>

theorem registration_installs_only_when_absent:
  "(g ''CompressionStream'' = None \<longrightarrow>
      module_load g ''CompressionStream'' =
        Some \<lparr>desc_value = CompressionStreamPolyfill_class, desc_writable = True,
              desc_enumerable = False, desc_configurable = True\<rparr>) \<and>
   (g ''CompressionStream'' \<noteq> None \<longrightarrow>
      module_load g ''CompressionStream'' = g ''CompressionStream'') \<and>
   (g ''DecompressionStream'' = None \<longrightarrow>
      module_load g ''DecompressionStream'' =
        Some \<lparr>desc_value = DecompressionStreamPolyfill_class, desc_writable = True,
              desc_enumerable = False, desc_configurable = True\<rparr>) \<and>
   (g ''DecompressionStream'' \<noteq> None \<longrightarrow>
      module_load g ''DecompressionStream'' = g ''DecompressionStream'') \<and>
   (name \<noteq> ''CompressionStream'' \<and> name \<noteq> ''DecompressionStream'' \<longrightarrow>
      module_load g name = g name)"
  by (simp add: module_load_def typeof_undefined_def defineProperty_def Let_def)

theorem registration_installs_only_when_absent_witness:
  "native_only_compression ''CompressionStream'' \<noteq> None \<and>
   native_only_compression ''DecompressionStream'' = None \<and>
   module_load native_only_compression ''CompressionStream'' =
     Some \<lparr>desc_value = HostValue ''native CompressionStream'', desc_writable = True,
           desc_enumerable = False, desc_configurable = True\<rparr> \<and>
   module_load native_only_compression ''DecompressionStream'' =
     Some \<lparr>desc_value = DecompressionStreamPolyfill_class, desc_writable = True,
           desc_enumerable = False, desc_configurable = True\<rparr>"
proof -
  have p: "native_only_compression ''CompressionStream'' \<noteq> None"
    and a: "native_only_compression ''DecompressionStream'' = None"
    by (simp_all add: native_only_compression_def)
  from registration_installs_only_when_absent [of native_only_compression]
  have "module_load native_only_compression ''CompressionStream'' =
          native_only_compression ''CompressionStream''"
    and "module_load native_only_compression ''DecompressionStream'' =
          Some \<lparr>desc_value = DecompressionStreamPolyfill_class, desc_writable = True,
                desc_enumerable = False, desc_configurable = True\<rparr>"
    using p a by blast+
  then show ?thesis using p a by (simp add: native_only_compression_def)
qed

text \<open>
  C7. As stated, every rejected value gets the error whose message names the value and
  lists the three formats. That fails for a rejected value that cannot be rendered: for
  the object \<open>{ toString() { throw new TypeError("no rendering") } }\<close> the conversion
  inside the throw expression throws first, and the error that leaves the constructor
  has the message \<open>no rendering\<close>, which names no format.
\<close>

theorem conversion_error_escapes_counterexample:
  "\<not> isValidFormat (JSObject (Inl (TypeError ''no rendering''))) \<and>
   CompressionStreamPolyfill [] (JSObject (Inl (TypeError ''no rendering''))) =
     (Inl (TypeError ''no rendering''), []) \<and>
   \<not> sublist ''deflate'' ''no rendering'' \<and>
   \<not> sublist ''gzip'' ''no rendering''"
  by (simp add: isValidFormat_def CompressionStreamPolyfill_def sublist_Cons_right)

text \<open>
  C7, amended. For every rejected value that \<open>String()\<close> renders, both constructors
  throw, in the call itself, the \<open>TypeError\<close> whose message is
  \<open>Invalid compression format '<rendering>'. Use: deflate, deflate-raw, or gzip\<close>. The
  rendering is the string itself for a string, \<open>undefined\<close>, \<open>null\<close>, \<open>true\<close> or
  \<open>false\<close>, the decimal digits (with a minus sign when negative) for a safe integer
  and for a BigInt, what the engine prints for any other number, \<open>Symbol(d)\<close> for a
  symbol, and what \<open>toString\<close> returns for an object or function. When the conversion
  of an object or function throws, that error leaves the constructor instead.
\<close>

theorem invalid_format_message_names_value:
  "(\<not> isValidFormat v \<longrightarrow>
      (\<exists>s. CompressionStreamPolyfill st v = (Inl (TypeError (invalid_format_message s)), st) \<and>
           DecompressionStreamPolyfill st v = (Inl (TypeError (invalid_format_message s)), st)) \<or>
      (\<exists>e. (v = JSObject (Inl e) \<or> v = JSFunction (Inl e)) \<and>
           CompressionStreamPolyfill st v = (Inl e, st) \<and>
           DecompressionStreamPolyfill st v = (Inl e, st))) \<and>
   (\<not> isValidFormat (JSString k) \<longrightarrow>
      CompressionStreamPolyfill st (JSString k) =
        (Inl (TypeError (invalid_format_message k)), st) \<and>
      DecompressionStreamPolyfill st (JSString k) =
        (Inl (TypeError (invalid_format_message k)), st)) \<and>
   CompressionStreamPolyfill st JSUndefined =
     (Inl (TypeError (invalid_format_message ''undefined'')), st) \<and>
   DecompressionStreamPolyfill st JSUndefined =
     (Inl (TypeError (invalid_format_message ''undefined'')), st) \<and>
   CompressionStreamPolyfill st JSNull =
     (Inl (TypeError (invalid_format_message ''null'')), st) \<and>
   DecompressionStreamPolyfill st JSNull =
     (Inl (TypeError (invalid_format_message ''null'')), st) \<and>
   CompressionStreamPolyfill st (JSBoolean b) =
     (Inl (TypeError (invalid_format_message (if b then ''true'' else ''false''))), st) \<and>
   DecompressionStreamPolyfill st (JSBoolean b) =
     (Inl (TypeError (invalid_format_message (if b then ''true'' else ''false''))), st) \<and>
   CompressionStreamPolyfill st (JSNumber (SafeInteger neg m)) =
     (Inl (TypeError (invalid_format_message
        ((if neg \<and> m \<noteq> 0 then ''-'' else []) @ decimal (unat m)))), st) \<and>
   DecompressionStreamPolyfill st (JSNumber (SafeInteger neg m)) =
     (Inl (TypeError (invalid_format_message
        ((if neg \<and> m \<noteq> 0 then ''-'' else []) @ decimal (unat m)))), st) \<and>
   CompressionStreamPolyfill st (JSNumber (OtherNumber r)) =
     (Inl (TypeError (invalid_format_message r)), st) \<and>
   DecompressionStreamPolyfill st (JSNumber (OtherNumber r)) =
     (Inl (TypeError (invalid_format_message r)), st) \<and>
   CompressionStreamPolyfill st (JSBigInt i) =
     (Inl (TypeError (invalid_format_message
        (if i < 0 then ''-'' @ decimal (nat (- i)) else decimal (nat i)))), st) \<and>
   DecompressionStreamPolyfill st (JSBigInt i) =
     (Inl (TypeError (invalid_format_message
        (if i < 0 then ''-'' @ decimal (nat (- i)) else decimal (nat i)))), st) \<and>
   CompressionStreamPolyfill st (JSSymbol d) =
     (Inl (TypeError (invalid_format_message (''Symbol('' @ d @ '')''))), st) \<and>
   DecompressionStreamPolyfill st (JSSymbol d) =
     (Inl (TypeError (invalid_format_message (''Symbol('' @ d @ '')''))), st) \<and>
   CompressionStreamPolyfill st (JSObject (Inr r)) =
     (Inl (TypeError (invalid_format_message r)), st) \<and>
   DecompressionStreamPolyfill st (JSObject (Inr r)) =
     (Inl (TypeError (invalid_format_message r)), st) \<and>
   CompressionStreamPolyfill st (JSFunction (Inr r)) =
     (Inl (TypeError (invalid_format_message r)), st) \<and>
   DecompressionStreamPolyfill st (JSFunction (Inr r)) =
     (Inl (TypeError (invalid_format_message r)), st) \<and>
   CompressionStreamPolyfill st (JSObject (Inl e)) = (Inl e, st) \<and>
   DecompressionStreamPolyfill st (JSObject (Inl e)) = (Inl e, st) \<and>
   CompressionStreamPolyfill st (JSFunction (Inl e)) = (Inl e, st) \<and>
   DecompressionStreamPolyfill st (JSFunction (Inl e)) = (Inl e, st) \<and>
   digits_value (decimal n) = n \<and>
   set (decimal n) \<subseteq> set ''0123456789'' \<and>
   (0 < n \<longrightarrow> hd (decimal n) \<noteq> CHR ''0'') \<and>
   decimal 0 = ''0'' \<and>
   invalid_format_message s =
     ''Invalid compression format '' @ [CHR 0x27] @ s @ [CHR 0x27] @
     ''. Use: deflate, deflate-raw, or gzip'' \<and>
   sublist s (invalid_format_message s) \<and>
   sublist ''deflate'' (invalid_format_message s) \<and>
   sublist ''deflate-raw'' (invalid_format_message s) \<and>
   sublist ''gzip'' (invalid_format_message s) \<and>
   CompressionStreamPolyfill st (JSNumber (SafeInteger False 123)) =
     (Inl (TypeError ''Invalid compression format '123'. Use: deflate, deflate-raw, or gzip''),
      st) \<and>
   DecompressionStreamPolyfill st (JSString ''bad'') =
     (Inl (TypeError ''Invalid compression format 'bad'. Use: deflate, deflate-raw, or gzip''),
      st)"
proof -
  have rej: "CompressionStreamPolyfill st w =
        (case js_String w of
           Inl e \<Rightarrow> (Inl e, st)
         | Inr s \<Rightarrow> (Inl (TypeError (invalid_format_message s)), st)) \<and>
      DecompressionStreamPolyfill st w =
        (case js_String w of
           Inl e \<Rightarrow> (Inl e, st)
         | Inr s \<Rightarrow> (Inl (TypeError (invalid_format_message s)), st))"
    if "\<not> isValidFormat w" for w
    using that by (simp add: rejected_compression rejected_decompression)
  have any: "\<not> isValidFormat v \<longrightarrow>
      (\<exists>s. CompressionStreamPolyfill st v = (Inl (TypeError (invalid_format_message s)), st) \<and>
           DecompressionStreamPolyfill st v = (Inl (TypeError (invalid_format_message s)), st)) \<or>
      (\<exists>e. (v = JSObject (Inl e) \<or> v = JSFunction (Inl e)) \<and>
           CompressionStreamPolyfill st v = (Inl e, st) \<and>
           DecompressionStreamPolyfill st v = (Inl e, st))"
  proof
    assume r: "\<not> isValidFormat v"
    show "(\<exists>s. CompressionStreamPolyfill st v = (Inl (TypeError (invalid_format_message s)), st) \<and>
           DecompressionStreamPolyfill st v = (Inl (TypeError (invalid_format_message s)), st)) \<or>
      (\<exists>e. (v = JSObject (Inl e) \<or> v = JSFunction (Inl e)) \<and>
           CompressionStreamPolyfill st v = (Inl e, st) \<and>
           DecompressionStreamPolyfill st v = (Inl e, st))"
    proof (cases "js_String v")
      case (Inr s)
      with rej [OF r] show ?thesis by auto
    next
      case (Inl e)
      then have "v = JSObject (Inl e) \<or> v = JSFunction (Inl e)"
        by (cases v) simp_all
      with rej [OF r] Inl show ?thesis by simp
    qed
  qed
  have str: "\<not> isValidFormat (JSString k) \<longrightarrow>
      CompressionStreamPolyfill st (JSString k) =
        (Inl (TypeError (invalid_format_message k)), st) \<and>
      DecompressionStreamPolyfill st (JSString k) =
        (Inl (TypeError (invalid_format_message k)), st)"
    using rej [of "JSString k"] by simp
  have undef: "CompressionStreamPolyfill st JSUndefined =
        (Inl (TypeError (invalid_format_message ''undefined'')), st) \<and>
      DecompressionStreamPolyfill st JSUndefined =
        (Inl (TypeError (invalid_format_message ''undefined'')), st)"
    using rej [of JSUndefined] by (simp add: non_string_invalid)
  have null: "CompressionStreamPolyfill st JSNull =
        (Inl (TypeError (invalid_format_message ''null'')), st) \<and>
      DecompressionStreamPolyfill st JSNull =
        (Inl (TypeError (invalid_format_message ''null'')), st)"
    using rej [of JSNull] by (simp add: non_string_invalid)
  have bool: "CompressionStreamPolyfill st (JSBoolean b) =
        (Inl (TypeError (invalid_format_message (if b then ''true'' else ''false''))), st) \<and>
      DecompressionStreamPolyfill st (JSBoolean b) =
        (Inl (TypeError (invalid_format_message (if b then ''true'' else ''false''))), st)"
    using rej [of "JSBoolean b"] by (simp add: non_string_invalid)
  have num: "CompressionStreamPolyfill st (JSNumber x) =
        (Inl (TypeError (invalid_format_message (Number_toString x))), st) \<and>
      DecompressionStreamPolyfill st (JSNumber x) =
        (Inl (TypeError (invalid_format_message (Number_toString x))), st)" for x
    using rej [of "JSNumber x"] by (simp add: non_string_invalid)
  have safe: "CompressionStreamPolyfill st (JSNumber (SafeInteger neg m)) =
        (Inl (TypeError (invalid_format_message
           ((if neg \<and> m \<noteq> 0 then ''-'' else []) @ decimal (unat m)))), st) \<and>
      DecompressionStreamPolyfill st (JSNumber (SafeInteger neg m)) =
        (Inl (TypeError (invalid_format_message
           ((if neg \<and> m \<noteq> 0 then ''-'' else []) @ decimal (unat m)))), st)"
    using num [of "SafeInteger neg m"] by simp
  have other: "CompressionStreamPolyfill st (JSNumber (OtherNumber r)) =
        (Inl (TypeError (invalid_format_message r)), st) \<and>
      DecompressionStreamPolyfill st (JSNumber (OtherNumber r)) =
        (Inl (TypeError (invalid_format_message r)), st)"
    using num [of "OtherNumber r"] by simp
  have big: "CompressionStreamPolyfill st (JSBigInt i) =
        (Inl (TypeError (invalid_format_message
           (if i < 0 then ''-'' @ decimal (nat (- i)) else decimal (nat i)))), st) \<and>
      DecompressionStreamPolyfill st (JSBigInt i) =
        (Inl (TypeError (invalid_format_message
           (if i < 0 then ''-'' @ decimal (nat (- i)) else decimal (nat i)))), st)"
    using rej [of "JSBigInt i"] by (simp add: non_string_invalid show_int_def)
  have sym: "CompressionStreamPolyfill st (JSSymbol d) =
        (Inl (TypeError (invalid_format_message (''Symbol('' @ d @ '')''))), st) \<and>
      DecompressionStreamPolyfill st (JSSymbol d) =
        (Inl (TypeError (invalid_format_message (''Symbol('' @ d @ '')''))), st)"
    using rej [of "JSSymbol d"] by (simp add: non_string_invalid)
  have obj: "CompressionStreamPolyfill st (JSObject c) =
        (case c of Inl e \<Rightarrow> (Inl e, st)
         | Inr r \<Rightarrow> (Inl (TypeError (invalid_format_message r)), st)) \<and>
      DecompressionStreamPolyfill st (JSObject c) =
        (case c of Inl e \<Rightarrow> (Inl e, st)
         | Inr r \<Rightarrow> (Inl (TypeError (invalid_format_message r)), st))" for c
    using rej [of "JSObject c"] by (simp add: non_string_invalid)
  have func: "CompressionStreamPolyfill st (JSFunction c) =
        (case c of Inl e \<Rightarrow> (Inl e, st)
         | Inr r \<Rightarrow> (Inl (TypeError (invalid_format_message r)), st)) \<and>
      DecompressionStreamPolyfill st (JSFunction c) =
        (case c of Inl e \<Rightarrow> (Inl e, st)
         | Inr r \<Rightarrow> (Inl (TypeError (invalid_format_message r)), st))" for c
    using rej [of "JSFunction c"] by (simp add: non_string_invalid)
  have zero: "decimal 0 = ''0''"
    by (simp add: decimal.simps digit_def)
  have m123: "invalid_format_message (Number_toString (SafeInteger False 123)) =
      ''Invalid compression format '123'. Use: deflate, deflate-raw, or gzip''"
    by (simp add: invalid_format_message_def decimal.simps digit_def)
  have mbad: "invalid_format_message ''bad'' =
      ''Invalid compression format 'bad'. Use: deflate, deflate-raw, or gzip''"
    by (simp add: invalid_format_message_def)
  have bad: "DecompressionStreamPolyfill st (JSString ''bad'') =
      (Inl (TypeError ''Invalid compression format 'bad'. Use: deflate, deflate-raw, or gzip''),
       st)"
    using rej [OF bad_rejected] by (simp add: mbad)
  have n123: "CompressionStreamPolyfill st (JSNumber (SafeInteger False 123)) =
      (Inl (TypeError ''Invalid compression format '123'. Use: deflate, deflate-raw, or gzip''),
       st)"
    using num [of "SafeInteger False 123"] by (simp only: m123)
  have objr: "CompressionStreamPolyfill st (JSObject (Inr r)) =
        (Inl (TypeError (invalid_format_message r)), st) \<and>
      DecompressionStreamPolyfill st (JSObject (Inr r)) =
        (Inl (TypeError (invalid_format_message r)), st)"
    and funcr: "CompressionStreamPolyfill st (JSFunction (Inr r)) =
        (Inl (TypeError (invalid_format_message r)), st) \<and>
      DecompressionStreamPolyfill st (JSFunction (Inr r)) =
        (Inl (TypeError (invalid_format_message r)), st)"
    and obje: "CompressionStreamPolyfill st (JSObject (Inl e)) = (Inl e, st) \<and>
      DecompressionStreamPolyfill st (JSObject (Inl e)) = (Inl e, st)"
    and funce: "CompressionStreamPolyfill st (JSFunction (Inl e)) = (Inl e, st) \<and>
      DecompressionStreamPolyfill st (JSFunction (Inl e)) = (Inl e, st)"
    using obj [of "Inr r"] func [of "Inr r"] obj [of "Inl e"] func [of "Inl e"] by simp_all
  have lead: "0 < n \<longrightarrow> hd (decimal n) \<noteq> CHR ''0''"
    by (simp add: decimal_no_leading_zero)
  note parts =
    any str
    undef [THEN conjunct1] undef [THEN conjunct2]
    null [THEN conjunct1] null [THEN conjunct2]
    bool [THEN conjunct1] bool [THEN conjunct2]
    safe [THEN conjunct1] safe [THEN conjunct2]
    other [THEN conjunct1] other [THEN conjunct2]
    big [THEN conjunct1] big [THEN conjunct2]
    sym [THEN conjunct1] sym [THEN conjunct2]
    objr [THEN conjunct1] objr [THEN conjunct2]
    funcr [THEN conjunct1] funcr [THEN conjunct2]
    obje [THEN conjunct1] obje [THEN conjunct2]
    funce [THEN conjunct1] funce [THEN conjunct2]
    digits_value_decimal [of n] decimal_digits [of n] lead zero
    message_text [of s] message_mentions [of s] n123 bad
  show ?thesis
    by (intro conjI) (rule parts)+
qed

theorem invalid_format_message_names_value_witness:
  "\<not> isValidFormat (JSString ''GZIP'') \<and>
   CompressionStreamPolyfill [] (JSString ''GZIP'') =
     (Inl (TypeError ''Invalid compression format 'GZIP'. Use: deflate, deflate-raw, or gzip''),
      []) \<and>
   DecompressionStreamPolyfill [] (JSNumber (SafeInteger True 40)) =
     (Inl (TypeError ''Invalid compression format '-40'. Use: deflate, deflate-raw, or gzip''),
      []) \<and>
   CompressionStreamPolyfill [] JSUndefined =
     (Inl (TypeError
        ''Invalid compression format 'undefined'. Use: deflate, deflate-raw, or gzip''), []) \<and>
   digits_value (decimal 40) = 40 \<and>
   hd (decimal 40) \<noteq> CHR ''0''"
proof -
  note t = invalid_format_message_names_value
    [where v = "JSString ''GZIP''" and st = "[]" and k = "''GZIP''" and neg = True
       and m = 40 and n = 40]
  have d40: "decimal 40 = ''40''"
    by (simp add: decimal.simps digit_def)
  from t GZIP_rejected
  have "CompressionStreamPolyfill [] (JSString ''GZIP'') =
          (Inl (TypeError (invalid_format_message ''GZIP'')), [])"
    and "DecompressionStreamPolyfill [] (JSNumber (SafeInteger True 40)) =
          (Inl (TypeError (invalid_format_message
             ((if True \<and> (40 :: 53 word) \<noteq> 0 then ''-'' else []) @ decimal (unat (40 :: 53 word))))),
           [])"
    and "CompressionStreamPolyfill [] JSUndefined =
          (Inl (TypeError (invalid_format_message ''undefined'')), [])"
    and "digits_value (decimal 40) = 40"
    and "hd (decimal 40) \<noteq> CHR ''0''"
    by simp_all
  then show ?thesis
    using GZIP_rejected by (simp add: d40 invalid_format_message_def)
qed

text \<open>
  C8. Corrupt input is never an error of construction: for each of the three formats
  the decompression constructor returns an adapter, whatever bytes follow. The bytes
  only meet the inflating transform when they are piped through the adapter, and it is
  there that malformed data fails.
\<close>

theorem decompression_construction_succeeds:
  assumes "k \<in> set [''deflate'', ''deflate-raw'', ''gzip'']"
  shows "\<exists>ds st1 f. DecompressionStreamPolyfill st (JSString k) = (Inr ds, st1) \<and>
           map_of DECOMPRESSION_FORMATS k = Some f \<and>
           (\<forall>zlib data. pipeThrough zlib st1 data ds = zlib f data)"
proof -
  from assms obtain f where "map_of DECOMPRESSION_FORMATS k = Some f"
    using table_lookup by blast
  then show ?thesis
    by (simp add: construct_decompression pipeThrough_fresh)
qed

theorem decompression_construction_succeeds_witness:
  "''gzip'' \<in> set [''deflate'', ''deflate-raw'', ''gzip''] \<and>
   DecompressionStreamPolyfill [] (JSString ''gzip'') =
     (Inr \<lparr>readable = 1, writable = 2\<rparr>,
      [Transform createGunzip, ReadableStream 0, WritableStream 0]) \<and>
   pipeThrough stored_codec [Transform createGunzip, ReadableStream 0, WritableStream 0]
     [0, 1, 2] \<lparr>readable = 1, writable = 2\<rparr> = None"
proof -
  have h: "''gzip'' \<in> set [''deflate'', ''deflate-raw'', ''gzip'']" by simp
  from decompression_construction_succeeds [OF h, of "[]"]
  have "pipeThrough stored_codec [Transform createGunzip, ReadableStream 0, WritableStream 0]
     [0, 1, 2] \<lparr>readable = 1, writable = 2\<rparr> = stored_codec createGunzip [0, 1, 2]"
    by (simp add: gunzip_from_empty DECOMPRESSION_FORMATS_def)
  then show ?thesis by (simp add: gunzip_from_empty)
qed

text \<open>
  C9. As stated, the error either constructor throws on an invalid format is always a
  \<open>TypeError\<close>. That fails for the rejected object
  \<open>{ toString() { throw new RangeError("no rendering") } }\<close>: the error that leaves
  the constructor is the \<open>RangeError\<close> thrown while the message was being built.
\<close>

theorem thrown_class_counterexample:
  "\<not> isValidFormat (JSObject (Inl (OtherError ''RangeError'' ''no rendering''))) \<and>
   fst (CompressionStreamPolyfill [] (JSObject (Inl (OtherError ''RangeError'' ''no rendering'')))) =
     Inl (OtherError ''RangeError'' ''no rendering'') \<and>
   fst (DecompressionStreamPolyfill [] (JSObject (Inl (OtherError ''RangeError'' ''no rendering'')))) =
     Inl (OtherError ''RangeError'' ''no rendering'') \<and>
   \<not> is_TypeError (OtherError ''RangeError'' ''no rendering'')"
  by (simp add: isValidFormat_def CompressionStreamPolyfill_def DecompressionStreamPolyfill_def)

text \<open>
  C9, amended. For a rejected value that is not an object or function whose conversion
  to a string throws, both constructors throw the same error and it is a \<open>TypeError\<close>,
  of no other class. For an object or function whose conversion throws, what leaves
  either constructor is the error the conversion threw, of whatever class.
\<close>

theorem invalid_format_error_is_TypeError:
  assumes "\<not> isValidFormat v"
  shows "((\<forall>e. v \<noteq> JSObject (Inl e) \<and> v \<noteq> JSFunction (Inl e)) \<longrightarrow>
            (\<exists>m. fst (CompressionStreamPolyfill st v) = Inl (TypeError m) \<and>
                 fst (DecompressionStreamPolyfill st' v) = Inl (TypeError m) \<and>
                 is_TypeError (TypeError m) \<and> (\<forall>c m'. TypeError m \<noteq> OtherError c m'))) \<and>
         (\<forall>e. v = JSObject (Inl e) \<or> v = JSFunction (Inl e) \<longrightarrow>
            fst (CompressionStreamPolyfill st v) = Inl e \<and>
            fst (DecompressionStreamPolyfill st' v) = Inl e)"
proof (cases "js_String v")
  case (Inr s)
  then have "\<forall>e. v \<noteq> JSObject (Inl e) \<and> v \<noteq> JSFunction (Inl e)"
    by auto
  with assms Inr show ?thesis
    by (simp add: rejected_compression rejected_decompression)
next
  case (Inl e)
  then have "v = JSObject (Inl e) \<or> v = JSFunction (Inl e)"
    by (cases v) simp_all
  with assms Inl show ?thesis
    by (auto simp: rejected_compression rejected_decompression)
qed

theorem invalid_format_error_is_TypeError_witness:
  "\<not> isValidFormat (JSString ''GZIP'') \<and>
   (\<exists>m. fst (CompressionStreamPolyfill [] (JSString ''GZIP'')) = Inl (TypeError m) \<and>
        fst (DecompressionStreamPolyfill [] (JSString ''GZIP'')) = Inl (TypeError m)) \<and>
   \<not> isValidFormat (JSFunction (Inl (OtherError ''Error'' ''x''))) \<and>
   fst (DecompressionStreamPolyfill [] (JSFunction (Inl (OtherError ''Error'' ''x'')))) =
     Inl (OtherError ''Error'' ''x'')"
proof -
  have h: "\<not> isValidFormat (JSFunction (Inl (OtherError ''Error'' ''x'')))"
    by (simp add: isValidFormat_def)
  show ?thesis
    using GZIP_rejected h
      invalid_format_error_is_TypeError [OF GZIP_rejected, of "[]" "[]"]
      invalid_format_error_is_TypeError [OF h, of "[]" "[]"]
    by auto
qed

text \<open>
  C10. A value whose type is not string is rejected whatever it renders to: a number,
  \<open>null\<close>, \<open>undefined\<close>, a symbol, an object, even an object whose \<open>toString\<close>
  yields \<open>"gzip"\<close>. The validator answers false and both constructors throw.
\<close>

theorem non_string_rejected:
  assumes "typeof v \<noteq> ''string''"
  shows "\<not> isValidFormat v \<and>
         (\<exists>e. CompressionStreamPolyfill st v = (Inl e, st)) \<and>
         (\<exists>e. DecompressionStreamPolyfill st v = (Inl e, st))"
proof -
  from assms have "\<not> isValidFormat v" by (rule non_string_invalid)
  then show ?thesis
    by (simp add: rejected_compression rejected_decompression split: sum.split)
qed

theorem non_string_rejected_witness:
  "typeof (JSObject (Inr ''gzip'')) \<noteq> ''string'' \<and>
   js_String (JSObject (Inr ''gzip'')) = Inr ''gzip'' \<and>
   \<not> isValidFormat (JSObject (Inr ''gzip'')) \<and>
   CompressionStreamPolyfill [] (JSObject (Inr ''gzip'')) =
     (Inl (TypeError (invalid_format_message ''gzip'')), []) \<and>
   DecompressionStreamPolyfill [] (JSObject (Inr ''gzip'')) =
     (Inl (TypeError (invalid_format_message ''gzip'')), [])"
proof -
  have h: "typeof (JSObject (Inr ''gzip'')) \<noteq> ''string''" by simp
  from non_string_rejected [OF h] have "\<not> isValidFormat (JSObject (Inr ''gzip''))"
    by blast
  then show ?thesis
    by (simp add: rejected_compression rejected_decompression)
qed

end
